theory Spec2Isabelle
  imports Complex_Main
begin

section \<open>GP interpolation in 1D with a custom kernel (gpmp example 05)\<close>

text \<open>
  The example file defines two mean functions (\<open>zero_mean\<close>, \<open>constant_mean\<close>), a
  covariance function \<open>kernel\<close> that dispatches to \<open>kernel_ii_or_tt\<close> or \<open>kernel_it\<close>,
  the parameter vector \<open>covparam\<close>, and a post-processing step on the predictive
  variance. Array entries are modelled as real numbers: \<open>exp\<close>, \<open>sqrt\<close>, sums and
  products are the exact ones, so the theorems below describe the computation up to
  floating-point rounding. Exceptions are values of type \<open>error\<close>.
\<close>

subsection \<open>Arrays\<close>

datatype error = IndexError | ShapeError | DimensionMismatch | SingularSystem

type_synonym vector = "real list"

text \<open>A two-dimensional array is the list of its rows; \<open>x.shape[0]\<close> is \<open>length x\<close>.\<close>

type_synonym matrix = "real list list"

text \<open>The value returned by a kernel: a one-dimensional or a two-dimensional array.\<close>

datatype ndarray = Vec vector | Mat matrix

text \<open>
  \<open>param[i]\<close> for a non-negative literal index. An index out of range raises
  \<open>IndexError\<close> for a Python list or a numpy array (a jax array clamps it instead); the
  theorems below are about parameter vectors that have both entries.
\<close>

definition getitem :: "real list \<Rightarrow> nat \<Rightarrow> error + real" where
  "getitem a i = (if i < length a then Inr (a ! i) else Inl IndexError)"

text \<open>\<open>jnp.ones((n, ))\<close> and \<open>jnp.ones((n, m))\<close>.\<close>

definition ones :: "nat \<Rightarrow> vector" where
  "ones n = replicate n 1"

definition ones2 :: "nat \<Rightarrow> nat \<Rightarrow> matrix" where
  "ones2 n m = replicate n (replicate m 1)"

text \<open>\<open>jnp.eye(n)\<close>.\<close>

definition eye :: "nat \<Rightarrow> matrix" where
  "eye n = map (\<lambda>i. map (\<lambda>j. if i = j then 1 else 0) [0..<n]) [0..<n]"

text \<open>Scalar times array, and the sum of two arrays of one shape.\<close>

definition smul_vec :: "real \<Rightarrow> vector \<Rightarrow> vector" where
  "smul_vec c v = map (\<lambda>a. c * a) v"

definition smul_mat :: "real \<Rightarrow> matrix \<Rightarrow> matrix" where
  "smul_mat c K = map (smul_vec c) K"

definition mat_add :: "matrix \<Rightarrow> matrix \<Rightarrow> matrix" where
  "mat_add A B = map2 (\<lambda>r s. map2 (\<lambda>a b. a + b) r s) A B"

definition transpose_mat :: "matrix \<Rightarrow> matrix" where
  "transpose_mat K =
     map (\<lambda>j. map (\<lambda>i. K ! i ! j) [0..<length K]) [0..<(case K of [] \<Rightarrow> 0 | r # _ \<Rightarrow> length r)]"

text \<open>\<open>jnp.diag(K)\<close> of a square matrix.\<close>

definition diag :: "matrix \<Rightarrow> vector" where
  "diag K = map (\<lambda>i. K ! i ! i) [0..<length K]"

text \<open>An array of shape \<open>(n, m)\<close>: \<open>n\<close> rows of \<open>m\<close> entries.\<close>

definition is_matrix :: "nat \<Rightarrow> nat \<Rightarrow> matrix \<Rightarrow> bool" where
  "is_matrix n m A = (length A = n \<and> list_all (\<lambda>r. length r = m) A)"

subsection \<open>The library functions used by the kernels\<close>

text \<open>
  The kernels import \<open>gp.kernel.scale\<close>, \<open>gp.kernel.distance\<close>,
  \<open>gp.kernel.distance_pairwise\<close>, \<open>gp.kernel.maternp_kernel\<close> and the constant \<open>gp.eps\<close>
  from the library; none of them is defined in the example file. The functions are
  modelled from the spec, which describes the covariance as "an isotropic stationary
  kernel of the Mat\'ern class with smoothness parameter p, an anisotropic input scaling
  (invrho), a variance scale (sigma2)". The constant \<open>gp.eps\<close> is a parameter \<open>eps\<close> of the
  kernels.
\<close>

text \<open>A point set of shape \<open>(n, d)\<close>: every row has \<open>d\<close> coordinates.\<close>

definition is_points :: "nat \<Rightarrow> matrix \<Rightarrow> bool" where
  "is_points d x = list_all (\<lambda>a. length a = d) x"

text \<open>
  Modelled from the spec: \<open>gp.kernel.scale(x, invrho)\<close>, the input scaling. Every
  coordinate is multiplied by \<open>invrho\<close> (a scalar in the example).
\<close>

definition scale :: "matrix \<Rightarrow> real \<Rightarrow> matrix" where
  "scale x invrho = map (map (\<lambda>a. invrho * a)) x"

text \<open>
  Modelled from the spec: the distance of an isotropic kernel, the Euclidean distance
  between two points.
\<close>

definition point_dist :: "vector \<Rightarrow> vector \<Rightarrow> real" where
  "point_dist a b = sqrt (\<Sum>(u, v) \<leftarrow> zip a b. (u - v)\<^sup>2)"

text \<open>
  Modelled from the spec: two point sets can be compared when all their points have one
  dimension ("point sets as dense 2D arrays with consistent dimensionality").
\<close>

definition same_dim :: "matrix \<Rightarrow> matrix \<Rightarrow> bool" where
  "same_dim x y = list_all (\<lambda>a. list_all (\<lambda>b. length a = length b) (x @ y)) (x @ y)"

text \<open>
  Modelled from the spec: \<open>gp.kernel.distance(x, y)\<close>, the \<open>n \<times> m\<close> matrix of the distances
  between the points of \<open>x\<close> and those of \<open>y\<close>. It raises when the dimensions disagree.
\<close>

definition distance :: "matrix \<Rightarrow> matrix \<Rightarrow> error + matrix" where
  "distance x y =
     (if same_dim x y then Inr (map (\<lambda>a. map (\<lambda>b. point_dist a b) y) x)
      else Inl ShapeError)"

text \<open>
  Modelled from the spec: \<open>gp.kernel.distance_pairwise(x, y)\<close>, the vector of the
  distances between the aligned pairs \<open>x[i]\<close>, \<open>y[i]\<close>; it "requires |x| == |y|".
\<close>

definition distance_pairwise :: "matrix \<Rightarrow> matrix \<Rightarrow> error + vector" where
  "distance_pairwise x y =
     (if same_dim x y \<and> length x = length y then Inr (map2 point_dist x y)
      else Inl ShapeError)"

text \<open>
  Modelled from the spec: \<open>gp.kernel.maternp_kernel(p, h)\<close>, the Mat\'ern correlation of
  regularity \<open>p + 1/2\<close> at distance \<open>h\<close>, a polynomial of degree \<open>p\<close> times a decaying
  exponential. The library applies it to every entry of an array of distances. The
  theorems below use two facts about it: its value at distance 0 is 1, and for \<open>p = 2\<close>
  its value at a distance \<open>h \<ge> 0\<close> is at most 1.
\<close>

definition maternp_kernel :: "nat \<Rightarrow> real \<Rightarrow> real" where
  "maternp_kernel p h =
     (let c = 2 * sqrt (real p + 1 / 2) in
      exp (- c * h) *
      (\<Sum>i \<leftarrow> [0..<Suc p].
         (fact p / fact (2 * p)) * (fact (p + i) / (fact i * fact (p - i)))
           * (2 * c * h) ^ (p - i)))"

subsection \<open>Mean functions\<close>


definition constant_mean :: "matrix \<Rightarrow> 'p \<Rightarrow> matrix option" where
  "constant_mean x param = Some (ones2 (length x) 1)"

subsection \<open>Kernels\<close>

text \<open>
  \<open>kernel_ii_or_tt(x, param, pairwise)\<close>: covariance between observations or
  predictands at \<open>x\<close>. The constant \<open>gp.eps\<close> of the library is the parameter \<open>eps\<close>.
\<close>

definition kernel_ii_or_tt :: "real \<Rightarrow> matrix \<Rightarrow> real list \<Rightarrow> bool \<Rightarrow> error + ndarray" where
  "kernel_ii_or_tt eps x param pw =
     (let p = 2 in
      case getitem param 0 of Inl e \<Rightarrow> Inl e | Inr p0 \<Rightarrow>
     (let sigma2 = exp p0 in
      case getitem param 1 of Inl e \<Rightarrow> Inl e | Inr p1 \<Rightarrow>
     (let invrho = exp p1;
          nugget = 100 * eps in
      if pw then
        Inr (Vec (smul_vec sigma2 (ones (length x))))
      else
       (let xs = scale x invrho in
        case distance xs xs of Inl e \<Rightarrow> Inl e | Inr K \<Rightarrow>
          Inr (Mat (mat_add (smul_mat sigma2 (map (map (maternp_kernel p)) K))
                            (smul_mat nugget (eye (length K)))))))))"

text \<open>
  \<open>kernel_it(x, y, param, pairwise)\<close>: covariance between observations and prediction
  points.
\<close>

definition kernel_it :: "matrix \<Rightarrow> matrix \<Rightarrow> real list \<Rightarrow> bool \<Rightarrow> error + ndarray" where
  "kernel_it x y param pw =
     (let p = 2 in
      case getitem param 0 of Inl e \<Rightarrow> Inl e | Inr p0 \<Rightarrow>
     (let sigma2 = exp p0 in
      case getitem param 1 of Inl e \<Rightarrow> Inl e | Inr p1 \<Rightarrow>
     (let invrho = exp p1;
          xs = scale x invrho;
          ys = scale y invrho in
      if pw then
       (case distance_pairwise xs ys of Inl e \<Rightarrow> Inl e | Inr K \<Rightarrow>
          Inr (Vec (smul_vec sigma2 (map (maternp_kernel p) K))))
      else
       (case distance xs ys of Inl e \<Rightarrow> Inl e | Inr K \<Rightarrow>
          Inr (Mat (smul_mat sigma2 (map (map (maternp_kernel p)) K)))))))"

text \<open>
  \<open>kernel(x, y, param, pairwise)\<close> tests \<open>y is x or y is None\<close>. The test is on the
  identity of the array objects, so the arguments are references into a store of
  arrays; \<open>y\<close> is \<open>None\<close> or a reference.
\<close>

type_synonym ref = nat

type_synonym store = "ref \<Rightarrow> matrix"

definition kernel :: "real \<Rightarrow> store \<Rightarrow> ref \<Rightarrow> ref option \<Rightarrow> real list \<Rightarrow> bool \<Rightarrow> error + ndarray" where
  "kernel eps st x y param pw =
     (if y = Some x \<or> y = None then kernel_ii_or_tt eps (st x) param pw
      else kernel_it (st x) (st (the y)) param pw)"

text \<open>
  \<open>kernel_ii_or_tt\<close> once more, with the library as a parameter: the constant
  \<open>gp.eps\<close> and the functions \<open>gp.kernel.scale\<close>, \<open>gp.kernel.distance\<close> and
  \<open>gp.kernel.maternp_kernel\<close> are the fields of a record, and nothing is assumed on what
  they compute. \<open>maternp_kernel\<close> takes the array of distances and returns an array.
\<close>

record gp_lib =
  lib_eps :: real
  lib_scale :: "matrix \<Rightarrow> real \<Rightarrow> matrix"
  lib_distance :: "matrix \<Rightarrow> matrix \<Rightarrow> error + matrix"
  lib_maternp_kernel :: "nat \<Rightarrow> matrix \<Rightarrow> matrix"

definition kernel_ii_or_tt_lib :: "gp_lib \<Rightarrow> matrix \<Rightarrow> real list \<Rightarrow> bool \<Rightarrow> error + ndarray" where
  "kernel_ii_or_tt_lib gp x param pw =
     (let p = 2 in
      case getitem param 0 of Inl e \<Rightarrow> Inl e | Inr p0 \<Rightarrow>
     (let sigma2 = exp p0 in
      case getitem param 1 of Inl e \<Rightarrow> Inl e | Inr p1 \<Rightarrow>
     (let invrho = exp p1;
          nugget = 100 * lib_eps gp in
      if pw then
        Inr (Vec (smul_vec sigma2 (ones (length x))))
      else
       (let xs = lib_scale gp x invrho in
        case lib_distance gp xs xs of Inl e \<Rightarrow> Inl e | Inr K \<Rightarrow>
          Inr (Mat (mat_add (smul_mat sigma2 (lib_maternp_kernel gp p K))
                            (smul_mat nugget (eye (length K)))))))))"

text \<open>
  The library as modelled above; with it \<open>kernel_ii_or_tt_lib\<close> is \<open>kernel_ii_or_tt\<close>
  (lemma \<open>kernel_ii_or_tt_spec_lib\<close>).
\<close>

definition spec_lib :: "real \<Rightarrow> gp_lib" where
  "spec_lib eps =
     \<lparr>lib_eps = eps, lib_scale = scale, lib_distance = distance,
      lib_maternp_kernel = (\<lambda>p. map (map (maternp_kernel p)))\<rparr>"

text \<open>
  The parameters of the example:
  \<open>covparam = jnp.array([math.log(0.5**2), math.log(1 / .7)])\<close>.
\<close>

definition covparam :: "real list" where
  "covparam = [ln ((1 / 2)\<^sup>2), ln (1 / (7 / 10))]"

subsection \<open>Post-processing of the variance\<close>

text \<open>\<open>np.maximum(a, c)\<close> for an array \<open>a\<close> and a scalar \<open>c\<close>, as in
  \<open>zpv = np.maximum(zpv, 0)\<close>.\<close>

definition np_maximum :: "vector \<Rightarrow> real \<Rightarrow> vector" where
  "np_maximum a c = map (\<lambda>v. max v c) a"

subsection \<open>The model and its predictor\<close>

text \<open>
  \<open>model = gp.core.Model(mean, kernel, meanparam, covparam)\<close>: the tuple of a mean
  function, a covariance function and their parameters.
\<close>

record 'p model =
  m_mean :: "matrix \<Rightarrow> 'p \<Rightarrow> matrix option"
  m_covariance :: "store \<Rightarrow> ref \<Rightarrow> ref option \<Rightarrow> real list \<Rightarrow> bool \<Rightarrow> error + ndarray"
  m_meanparam :: 'p
  m_covparam :: "real list"

text \<open>The model of the example: \<open>mean = constant_mean\<close>, \<open>meanparam = None\<close>.\<close>

definition example_model :: "real \<Rightarrow> unit option model" where
  "example_model eps =
     \<lparr>m_mean = constant_mean, m_covariance = kernel eps, m_meanparam = None,
      m_covparam = covparam\<rparr>"

text \<open>
  Modelled from the spec: the linear algebra of the predictor, which the spec writes as
  \<open>k\<^sup>T alpha\<close>, \<open>K alpha\<close> and \<open>k(xi, x)\<close>: inner product, matrix times vector, a column
  of a matrix.
\<close>

definition dot :: "vector \<Rightarrow> vector \<Rightarrow> real" where
  "dot a b = (\<Sum>(u, v) \<leftarrow> zip a b. u * v)"

definition mat_vec :: "matrix \<Rightarrow> vector \<Rightarrow> vector" where
  "mat_vec M w = map (\<lambda>r. dot r w) M"

definition column :: "matrix \<Rightarrow> nat \<Rightarrow> vector" where
  "column k j = map (\<lambda>r. r ! j) k"

text \<open>
  Modelled from the spec: the block matrix \<open>[[K, P], [P\<^sup>T, 0]]\<close> of size
  \<open>(n + q) \<times> (n + q)\<close> of the universal-kriging system.
\<close>

definition block :: "matrix \<Rightarrow> matrix \<Rightarrow> matrix" where
  "block K P =
     (let q = (case P of [] \<Rightarrow> 0 | r # _ \<Rightarrow> length r) in
      map2 (\<lambda>r p. r @ p) K P @ map (\<lambda>c. column P c @ replicate q 0) [0..<q])"

text \<open>
  Modelled from the spec: the linear solve ("symmetric positive-definite solve; use a
  numerically stable factorization"). A solver takes a square matrix and a right-hand
  side and returns a solution, or \<open>None\<close> when it finds the matrix singular. The
  predictor is given the solver; a solver is sound when what it returns solves the
  system.
\<close>

type_synonym solver = "matrix \<Rightarrow> vector \<Rightarrow> vector option"

definition solver_sound :: "solver \<Rightarrow> bool" where
  "solver_sound solve =
     (\<forall>M b w. solve M b = Some w \<longrightarrow> length w = length b \<and> mat_vec M w = b)"

text \<open>
  Modelled from the spec: the predictor "fails with SingularSystem when K (or the block
  system) is numerically singular". A matrix is non-singular when the system has a
  solution for every right-hand side of its size; a solver is complete when it returns a
  solution for every non-singular matrix.
\<close>

definition has_solution :: "matrix \<Rightarrow> vector \<Rightarrow> bool" where
  "has_solution M b = (\<exists>w. length w = length b \<and> mat_vec M w = b)"

definition nonsingular :: "matrix \<Rightarrow> bool" where
  "nonsingular M = (\<forall>b. length b = length M \<longrightarrow> has_solution M b)"

definition solver_complete :: "solver \<Rightarrow> bool" where
  "solver_complete solve =
     (\<forall>M b. nonsingular M \<and> length b = length M \<longrightarrow> solve M b \<noteq> None)"

text \<open>
  Modelled from the spec: \<open>model.predict\<close> is the library's \<open>gp.core.Model.predict\<close>,
  which is not part of the example file. The spec gives its contract
  \<open>predict(xi, zi, xt) -> (zpm, zpv)\<close>: it fails with \<open>DimensionMismatch\<close> "when
  |xi| != |zi| or point dimensionality disagrees between xi and xt", "detected eagerly
  before any linear algebra is attempted"; it computes \<open>K = kernel(xi, xi)\<close>,
  \<open>k = kernel(xi, xt)\<close> and the prior variances \<open>k_tt\<close>. When the mean function returns
  \<open>None\<close> (simple kriging, zero mean) it solves \<open>K alpha = zi\<close>, and
  \<open>zpm = k\<^sup>T alpha\<close>, \<open>zpv(x) = k_tt(x, x) - k(xi, x)\<^sup>T v\<close> with \<open>K v = k(xi, x)\<close>.
  When the mean function returns a basis matrix \<open>P\<close> (and \<open>Pt\<close> at the targets) it solves
  the block system \<open>[[K, P], [P\<^sup>T, 0]] [alpha; beta] = [zi; 0]\<close>, and
  \<open>zpm = k\<^sup>T alpha + Pt beta\<close>,
  \<open>zpv(x) = k_tt(x, x) - [k(xi, x); Pt(x)]\<^sup>T v\<close> with
  \<open>M v = [k(xi, x); Pt(x)]\<close>. A singular system fails with \<open>SingularSystem\<close>.
\<close>

definition predict ::
  "solver \<Rightarrow> 'p model \<Rightarrow> store \<Rightarrow> ref \<Rightarrow> vector \<Rightarrow> ref \<Rightarrow> error + (vector \<times> vector)" where
  "predict solve md st xi zi xt =
     (if length (st xi) \<noteq> length zi \<or> \<not> same_dim (st xi) (st xt) then Inl DimensionMismatch
      else
        let n = length (st xi); m = length (st xt); cp = m_covparam md; mp = m_meanparam md in
        case m_covariance md st xi (Some xi) cp False of
          Inl e \<Rightarrow> Inl e | Inr (Vec _) \<Rightarrow> Inl ShapeError | Inr (Mat K) \<Rightarrow>
       (case m_covariance md st xi (Some xt) cp False of
          Inl e \<Rightarrow> Inl e | Inr (Vec _) \<Rightarrow> Inl ShapeError | Inr (Mat k) \<Rightarrow>
       (case m_covariance md st xt (Some xt) cp True of
          Inl e \<Rightarrow> Inl e | Inr (Mat _) \<Rightarrow> Inl ShapeError | Inr (Vec ktt) \<Rightarrow>
       (case m_mean md (st xi) mp of
          None \<Rightarrow>
           (case solve K zi of None \<Rightarrow> Inl SingularSystem | Some alpha \<Rightarrow>
           (case those (map (\<lambda>j. solve K (column k j)) [0..<m]) of
              None \<Rightarrow> Inl SingularSystem
            | Some V \<Rightarrow>
                Inr (map (\<lambda>j. dot (column k j) alpha) [0..<m],
                     map (\<lambda>j. ktt ! j - dot (column k j) (V ! j)) [0..<m])))
        | Some P \<Rightarrow>
           (case m_mean md (st xt) mp of None \<Rightarrow> Inl ShapeError | Some Pt \<Rightarrow>
            let M = block K P;
                q = length M - n in
           (case solve M (zi @ replicate q 0) of None \<Rightarrow> Inl SingularSystem | Some w \<Rightarrow>
           (case those (map (\<lambda>j. solve M (column k j @ Pt ! j)) [0..<m]) of
              None \<Rightarrow> Inl SingularSystem
            | Some V \<Rightarrow>
                Inr (map (\<lambda>j. dot (column k j) (take n w) + dot (Pt ! j) (drop n w)) [0..<m],
                     map (\<lambda>j. ktt ! j - dot (column k j @ Pt ! j) (V ! j)) [0..<m]))))))))"



section \<open>Properties\<close>

subsection \<open>Auxiliary facts\<close>

lemma getitem_0: "2 \<le> length param \<Longrightarrow> getitem param 0 = Inr (param ! 0)"
  by (auto simp: getitem_def)

lemma getitem_1: "2 \<le> length param \<Longrightarrow> getitem param (Suc 0) = Inr (param ! 1)"
  by (simp add: getitem_def)

lemma length_scale: "length (scale x c) = length x"
  by (simp add: scale_def)

lemma point_dist_self: "point_dist a a = 0"
proof -
  have "(\<Sum>(u, v) \<leftarrow> zip a a. (u - v)\<^sup>2) = (0::real)"
    by (induction a) auto
  then show ?thesis by (simp add: point_dist_def)
qed

lemma point_dist_sym: "point_dist a b = point_dist b a"
proof -
  have "(\<Sum>(u, v) \<leftarrow> zip a b. (u - v)\<^sup>2) = (\<Sum>(u, v) \<leftarrow> zip b a. (u - v)\<^sup>2)"
  proof (induction a arbitrary: b)
    case Nil
    then show ?case by simp
  next
    case (Cons x xs)
    then show ?case by (cases b) (auto simp: power2_commute)
  qed
  then show ?thesis by (simp add: point_dist_def)
qed

lemma sum_list_map_zero:
  "(\<And>i. i \<in> set xs \<Longrightarrow> f i = (0::real)) \<Longrightarrow> sum_list (map f xs) = 0"
  by (induction xs) auto

text \<open>The correlation of a point with itself is one.\<close>

lemma maternp_kernel_0: "maternp_kernel p 0 = 1"
proof -
  have z: "(\<Sum>i \<leftarrow> [0..<p]. (fact p / fact (2 * p)) * (fact (p + i) / (fact i * fact (p - i)))
              * (0::real) ^ (p - i)) = 0"
    by (rule sum_list_map_zero) auto
  have e: "fact (p + p) / fact (2 * p) = (1::real)"
    by (simp add: mult_2)
  have "maternp_kernel p 0 =
      (\<Sum>i \<leftarrow> [0..<p]. (fact p / fact (2 * p)) * (fact (p + i) / (fact i * fact (p - i)))
              * (0::real) ^ (p - i))
      + fact (p + p) / fact (2 * p)"
    by (simp add: maternp_kernel_def)
  then show ?thesis
    by (simp only: z e)
qed

text \<open>
  For \<open>p = 2\<close> the correlation is \<open>exp(-t) (1 + t + t\<^sup>2 / 3)\<close> with
  \<open>t = 2 sqrt(5/2) h\<close>; it is at most one at every distance.
\<close>

lemma maternp_kernel_2:
  "maternp_kernel 2 h = exp (- (2 * sqrt (5 / 2) * h)) *
     (1 + 2 * sqrt (5 / 2) * h + (2 * sqrt (5 / 2) * h)\<^sup>2 / 3)"
proof -
  define t where "t = 2 * sqrt (5 / 2) * h"
  have l: "[0..<Suc 2] = [0, 1, 2]" by (simp add: numeral_2_eq_2)
  have f: "fact 4 = (24 :: real)" "fact 3 = (6 :: real)" "fact 2 = (2 :: real)"
    by (simp_all add: eval_nat_numeral)
  have c: "2 * sqrt (real 2 + 1 / 2) * h = t" by (simp add: t_def)
  have c2: "2 * (2 * sqrt (real 2 + 1 / 2)) * h = 2 * t" by (simp add: t_def)
  have "maternp_kernel 2 h = exp (- t) * (1 + t + t\<^sup>2 / 3)"
    unfolding maternp_kernel_def Let_def l c2
    using c by (simp add: f power2_eq_square field_simps del: fact_numeral)
  then show ?thesis by (simp add: t_def)
qed

lemma maternp_kernel_le_1:
  assumes "0 \<le> h"
  shows "maternp_kernel 2 h \<le> 1"
proof -
  define t where "t = 2 * sqrt (5 / 2) * h"
  have t: "0 \<le> t" using assms by (simp add: t_def)
  have "1 + t + t\<^sup>2 / 3 \<le> 1 + t + t\<^sup>2 / 2" by (simp add: field_simps)
  also have "\<dots> \<le> exp t" using t by (rule exp_lower_Taylor_quadratic)
  finally have "exp (- t) * (1 + t + t\<^sup>2 / 3) \<le> exp (- t) * exp t"
    by (intro mult_left_mono) simp_all
  also have "\<dots> = 1" by (simp add: exp_minus)
  finally show ?thesis
    unfolding maternp_kernel_2 t_def .
qed

lemma point_dist_nonneg: "0 \<le> point_dist a b"
  by (auto simp: point_dist_def intro!: sum_list_nonneg)

lemma is_points_scale: "is_points d (scale x c) = is_points d x"
  by (simp add: is_points_def scale_def list_all_iff)

lemma same_dim_points: "is_points d x \<Longrightarrow> is_points d y \<Longrightarrow> same_dim x y"
  by (auto simp: is_points_def same_dim_def list_all_iff)

lemma distance_points:
  "is_points d x \<Longrightarrow> is_points d y \<Longrightarrow>
   distance (scale x c) (scale y c)
     = Inr (map (\<lambda>a. map (\<lambda>b. point_dist a b) (scale y c)) (scale x c))"
  by (simp add: distance_def same_dim_points is_points_scale)

lemma distance_pairwise_points:
  "is_points d x \<Longrightarrow> is_points d y \<Longrightarrow> length x = length y \<Longrightarrow>
   distance_pairwise (scale x c) (scale y c) = Inr (map2 point_dist (scale x c) (scale y c))"
  by (simp add: distance_pairwise_def same_dim_points is_points_scale length_scale)

subsection \<open>Explicit forms of the kernels\<close>

lemma kernel_it_full:
  assumes "2 \<le> length param" and "is_points d x" and "is_points d y"
  shows "kernel_it x y param False
         = Inr (Mat (smul_mat (exp (param ! 0))
              (map (map (maternp_kernel 2))
                 (map (\<lambda>a. map (\<lambda>b. point_dist a b) (scale y (exp (param ! 1))))
                    (scale x (exp (param ! 1)))))))"
  using assms
  by (simp add: kernel_it_def getitem_0 getitem_1 Let_def distance_points)

lemma kernel_it_pairwise:
  assumes "2 \<le> length param" and "is_points d x" and "is_points d y" and "length x = length y"
  shows "kernel_it x y param True
         = Inr (Vec (smul_vec (exp (param ! 0))
              (map (maternp_kernel 2)
                 (map2 point_dist (scale x (exp (param ! 1))) (scale y (exp (param ! 1)))))))"
  using assms
  by (simp add: kernel_it_def getitem_0 getitem_1 Let_def distance_pairwise_points)

lemma kernel_ii_full:
  assumes "2 \<le> length param" and "is_points d x"
  shows "kernel_ii_or_tt eps x param False
         = Inr (Mat (mat_add
              (smul_mat (exp (param ! 0))
                (map (map (maternp_kernel 2))
                   (map (\<lambda>a. map (\<lambda>b. point_dist a b) (scale x (exp (param ! 1))))
                      (scale x (exp (param ! 1))))))
              (smul_mat (100 * eps) (eye (length x)))))"
  using assms
  by (simp add: kernel_ii_or_tt_def getitem_0 getitem_1 Let_def distance_points length_scale)

lemma kernel_ii_pairwise:
  assumes "2 \<le> length param"
  shows "kernel_ii_or_tt eps x param True = Inr (Vec (replicate (length x) (exp (param ! 0))))"
  using assms
  by (simp add: kernel_ii_or_tt_def getitem_0 getitem_1 Let_def smul_vec_def ones_def)

lemma kernel_ii_index:
  assumes "2 \<le> length param" and "is_points d x"
  shows "kernel_ii_or_tt eps x param False
         = Inr (Mat (map (\<lambda>i. map (\<lambda>j.
              exp (param ! 0) * maternp_kernel 2
                (point_dist (map (\<lambda>a. exp (param ! 1) * a) (x ! i))
                            (map (\<lambda>a. exp (param ! 1) * a) (x ! j)))
              + 100 * eps * (if i = j then 1 else 0)) [0..<length x]) [0..<length x]))"
  unfolding kernel_ii_full [OF assms]
  by (auto simp: mat_add_def smul_mat_def smul_vec_def eye_def scale_def
      intro!: nth_equalityI)

lemma kernel_ii_one_point:
  "2 \<le> length param \<Longrightarrow>
   kernel_ii_or_tt eps [[0]] param False = Inr (Mat [[exp (param ! 0) + 100 * eps]])"
  by (simp add: kernel_ii_index [of param 1] is_points_def point_dist_self maternp_kernel_0)

lemma kernel_ii_props:
  assumes "2 \<le> length param" and "is_points d x"
  shows "\<exists>K. kernel_ii_or_tt eps x param False = Inr (Mat K) \<and> length K = length x
          \<and> (\<forall>i<length x. length (K ! i) = length x)
          \<and> (\<forall>i<length x. \<forall>j<length x. K ! i ! j = K ! j ! i)
          \<and> (\<forall>j<length x. K ! j ! j = exp (param ! 0) + 100 * eps)"
  unfolding kernel_ii_index [OF assms]
  by (simp add: point_dist_sym point_dist_self maternp_kernel_0)

lemma kernel_ii_shape:
  assumes "2 \<le> length param" and "is_points d x"
  shows "\<exists>K. kernel_ii_or_tt eps x param False = Inr (Mat K) \<and> length K = length x
             \<and> list_all (\<lambda>r. length r = length x) K"
  unfolding kernel_ii_index [OF assms]
  by (simp add: list_all_iff)

lemma kernel_it_shape:
  assumes "2 \<le> length param" and "is_points d x" and "is_points d y"
  shows "\<exists>K. kernel_it x y param False = Inr (Mat K) \<and> length K = length x
             \<and> list_all (\<lambda>r. length r = length y) K"
  unfolding kernel_it_full [OF assms]
  by (simp add: list_all_iff smul_mat_def smul_vec_def scale_def)

lemma kernel_it_pairwise_entries:
  assumes "2 \<le> length param" and "is_points d x" and "is_points d y" and "length x = length y"
  shows "\<exists>v. kernel_it x y param True = Inr (Vec v) \<and> length v = length x
             \<and> (\<forall>i<length x. v ! i = exp (param ! 0) * maternp_kernel 2
                    (point_dist (map (\<lambda>a. exp (param ! 1) * a) (x ! i))
                                (map (\<lambda>a. exp (param ! 1) * a) (y ! i))))"
  unfolding kernel_it_pairwise [OF assms]
  using assms(4) by (simp add: smul_vec_def scale_def)

lemma transpose_index:
  assumes "\<And>i j. i < n \<Longrightarrow> j < n \<Longrightarrow> f i j = f j i"
  shows "transpose_mat (map (\<lambda>i. map (\<lambda>j. f i j) [0..<n]) [0..<n])
         = map (\<lambda>i. map (\<lambda>j. f i j) [0..<n]) [0..<n]"
proof (cases n)
  case 0
  then show ?thesis by (simp add: transpose_mat_def)
next
  case (Suc k)
  then have "(case map (\<lambda>i. map (\<lambda>j. f i j) [0..<n]) [0..<n] of [] \<Rightarrow> 0 | r # _ \<Rightarrow> length r) = n"
    by (simp add: upt_conv_Cons del: upt_Suc)
  then show ?thesis
    using assms by (auto simp: transpose_mat_def intro!: nth_equalityI)
qed

lemma diag_index:
  "diag (map (\<lambda>i. map (\<lambda>j. f i j) [0..<n]) [0..<n]) = map (\<lambda>i. f i i) [0..<n]"
  by (auto simp: diag_def intro!: nth_equalityI)

subsection \<open>Dispatch\<close>

text \<open>
  C2. \<open>kernel\<close> has two branches. When \<open>y\<close> is \<open>x\<close> or \<open>None\<close> it evaluates
  \<open>kernel_ii_or_tt\<close>, which returns an \<open>n \<times> n\<close> matrix for \<open>pairwise=False\<close> and a vector
  of length \<open>n\<close> for \<open>pairwise=True\<close>. For any other \<open>y\<close> it evaluates \<open>kernel_it\<close>, which
  returns an \<open>n \<times> m\<close> matrix for \<open>pairwise=False\<close> and, when \<open>|x| = |y|\<close>, the vector
  of the covariances between the aligned pairs \<open>x[i]\<close>, \<open>y[i]\<close> for \<open>pairwise=True\<close>.
\<close>

theorem kernel_dispatch:
  assumes "2 \<le> length param" and "is_points d (st x)" and "is_points d (st y)"
  shows "(yo = Some x \<or> yo = None \<longrightarrow>
            kernel eps st x yo param pw = kernel_ii_or_tt eps (st x) param pw)
       \<and> (y \<noteq> x \<longrightarrow> kernel eps st x (Some y) param pw = kernel_it (st x) (st y) param pw)
       \<and> (\<exists>K. kernel_ii_or_tt eps (st x) param False = Inr (Mat K)
              \<and> length K = length (st x) \<and> list_all (\<lambda>r. length r = length (st x)) K)
       \<and> (\<exists>v. kernel_ii_or_tt eps (st x) param True = Inr (Vec v) \<and> length v = length (st x))
       \<and> (\<exists>K. kernel_it (st x) (st y) param False = Inr (Mat K)
              \<and> length K = length (st x) \<and> list_all (\<lambda>r. length r = length (st y)) K)
       \<and> (length (st x) = length (st y) \<longrightarrow>
            (\<exists>v. kernel_it (st x) (st y) param True = Inr (Vec v) \<and> length v = length (st x)
              \<and> (\<forall>i<length (st x). v ! i = exp (param ! 0) * maternp_kernel 2
                    (point_dist (map (\<lambda>a. exp (param ! 1) * a) (st x ! i))
                                (map (\<lambda>a. exp (param ! 1) * a) (st y ! i))))))"
proof -
  have a: "yo = Some x \<or> yo = None \<longrightarrow>
            kernel eps st x yo param pw = kernel_ii_or_tt eps (st x) param pw"
    by (simp add: kernel_def)
  have b: "y \<noteq> x \<longrightarrow> kernel eps st x (Some y) param pw = kernel_it (st x) (st y) param pw"
    by (simp add: kernel_def)
  have c: "\<exists>v. kernel_ii_or_tt eps (st x) param True = Inr (Vec v) \<and> length v = length (st x)"
    by (simp add: kernel_ii_pairwise [OF assms(1)])
  show ?thesis
    using a b c kernel_ii_shape [OF assms(1,2)] kernel_it_shape [OF assms]
      kernel_it_pairwise_entries [OF assms]
    by blast
qed

theorem kernel_dispatch_witness:
  "2 \<le> length [0, 0 :: real] \<and> is_points 1 [[0]]
   \<and> kernel (1 / 2 ^ 52) (\<lambda>r. [[0]]) 0 None [0, 0] False
       = kernel_ii_or_tt (1 / 2 ^ 52) [[0]] [0, 0] False
   \<and> kernel (1 / 2 ^ 52) (\<lambda>r. [[0]]) 0 (Some 1) [0, 0] False
       = kernel_it [[0]] [[0]] [0, 0] False"
  using kernel_dispatch [of "[0, 0]" 1 "\<lambda>r. [[0]]" 0 1 None "1 / 2 ^ 52" False]
  by (simp add: is_points_def)

subsection \<open>Pairwise self-covariance\<close>

text \<open>
  C10. When \<open>y\<close> is \<open>x\<close> or \<open>None\<close>, the pairwise kernel is \<open>exp(param[0])\<close> times the
  all-ones vector of length \<open>x.shape[0]\<close>: the right-hand side mentions neither the
  coordinates of \<open>x\<close>, nor \<open>param[1]\<close>, nor the nugget \<open>100 * eps\<close>.
\<close>

theorem kernel_pairwise_self:
  assumes "2 \<le> length param" and "y = Some x \<or> y = None"
  shows "kernel eps st x y param True
         = Inr (Vec (replicate (length (st x)) (exp (param ! 0))))"
  using assms
  by (auto simp: kernel_def kernel_ii_or_tt_def getitem_0 getitem_1 smul_vec_def ones_def
      Let_def)

theorem kernel_pairwise_self_witness:
  "2 \<le> length [0, 0 :: real] \<and> ((None :: ref option) = Some 0 \<or> (None :: ref option) = None)
   \<and> kernel (1 / 2 ^ 52) (\<lambda>r. [[0], [1]]) 0 None [0, 0] True = Inr (Vec [1, 1])"
  using kernel_pairwise_self [of "[0, 0]" None 0 "1 / 2 ^ 52" "\<lambda>r. [[0], [1]]"]
  by simp

subsection \<open>Pairwise self-covariance and the diagonal of the full matrix\<close>

lemma kernel_ii_or_tt_spec_lib:
  "kernel_ii_or_tt_lib (spec_lib eps) x param pw = kernel_ii_or_tt eps x param pw"
  by (simp add: kernel_ii_or_tt_lib_def kernel_ii_or_tt_def spec_lib_def Let_def
      split: sum.splits)

lemma diag_nugget:
  assumes A: "is_matrix n n A"
  shows "length (mat_add (smul_mat s A) (smul_mat u (eye n))) = n"
    and "diag (mat_add (smul_mat s A) (smul_mat u (eye n)))
         = map (\<lambda>i. s * (A ! i ! i) + u) [0..<n]"
proof -
  have l: "length A = n" and r: "\<And>i. i < n \<Longrightarrow> length (A ! i) = n"
    using A by (auto simp: is_matrix_def list_all_length)
  show len: "length (mat_add (smul_mat s A) (smul_mat u (eye n))) = n"
    by (simp add: mat_add_def smul_mat_def eye_def l)
  show "diag (mat_add (smul_mat s A) (smul_mat u (eye n)))
        = map (\<lambda>i. s * (A ! i ! i) + u) [0..<n]"
    unfolding diag_def len
    by (rule map_cong) (simp_all add: mat_add_def smul_mat_def smul_vec_def eye_def l r)
qed

text \<open>
  C3, as amended. Whatever the library computes, provided \<open>distance\<close> and
  \<open>maternp_kernel\<close> return \<open>n \<times> n\<close> arrays for the \<open>n\<close> points of \<open>x\<close>: the pairwise
  self-covariance is \<open>sigma2 = exp(param[0])\<close> times the all-ones vector of length \<open>n\<close>,
  without nugget and without any distance; the full self-covariance matrix is
  \<open>n \<times> n\<close> and entry \<open>i\<close> of its diagonal is
  \<open>sigma2 * maternp_kernel(p, D)[i][i] + 100 * eps\<close>, where \<open>D = distance(xs, xs)\<close> and
  \<open>xs = scale(x, invrho)\<close>. So the two agree at \<open>i\<close> exactly when
  \<open>sigma2 * (1 - maternp_kernel(p, D)[i][i]) = 100 * eps\<close>.
\<close>

theorem kernel_pairwise_diag:
  assumes "2 \<le> length param"
    and "lib_distance gp (lib_scale gp x (exp (param ! 1))) (lib_scale gp x (exp (param ! 1)))
         = Inr D"
    and "is_matrix (length x) (length x) D"
    and "is_matrix (length x) (length x) (lib_maternp_kernel gp 2 D)"
  shows "kernel_ii_or_tt_lib gp x param True
           = Inr (Vec (replicate (length x) (exp (param ! 0))))
       \<and> (\<exists>K. kernel_ii_or_tt_lib gp x param False = Inr (Mat K) \<and> length K = length x
            \<and> diag K = map (\<lambda>i. exp (param ! 0) * (lib_maternp_kernel gp 2 D ! i ! i)
                                  + 100 * lib_eps gp) [0..<length x]
            \<and> (\<forall>i<length x. (diag K ! i = exp (param ! 0)) =
                  (exp (param ! 0) * (1 - lib_maternp_kernel gp 2 D ! i ! i)
                     = 100 * lib_eps gp)))"
proof -
  have D: "length D = length x" using assms(3) by (simp add: is_matrix_def)
  have a: "kernel_ii_or_tt_lib gp x param True
           = Inr (Vec (replicate (length x) (exp (param ! 0))))"
    using assms(1)
    by (simp add: kernel_ii_or_tt_lib_def getitem_0 getitem_1 Let_def smul_vec_def ones_def)
  have b: "kernel_ii_or_tt_lib gp x param False
           = Inr (Mat (mat_add (smul_mat (exp (param ! 0)) (lib_maternp_kernel gp 2 D))
                               (smul_mat (100 * lib_eps gp) (eye (length x)))))"
    using assms(1,2)
    by (simp add: kernel_ii_or_tt_lib_def getitem_0 getitem_1 Let_def D)
  show ?thesis
    unfolding a b using diag_nugget [OF assms(4)] by (auto simp: algebra_simps)
qed

text \<open>
  The theorem at the two points \<open>0\<close> and \<open>1\<close>, \<open>param = [0, 0]\<close>, \<open>eps = 1 / 2 ^ 52\<close> and
  the library as modelled.
\<close>

theorem kernel_pairwise_diag_witness:
  "2 \<le> length [0, 0 :: real]
   \<and> lib_distance (spec_lib (1 / 2 ^ 52))
        (lib_scale (spec_lib (1 / 2 ^ 52)) [[0], [1]] (exp ([0, 0] ! 1)))
        (lib_scale (spec_lib (1 / 2 ^ 52)) [[0], [1]] (exp ([0, 0] ! 1))) = Inr [[0, 1], [1, 0]]
   \<and> is_matrix 2 2 [[0, 1], [1, 0]]
   \<and> is_matrix 2 2 (lib_maternp_kernel (spec_lib (1 / 2 ^ 52)) 2 [[0, 1], [1, 0]])
   \<and> kernel_ii_or_tt_lib (spec_lib (1 / 2 ^ 52)) [[0], [1]] [0, 0] True = Inr (Vec [1, 1])
   \<and> (\<exists>K. kernel_ii_or_tt_lib (spec_lib (1 / 2 ^ 52)) [[0], [1]] [0, 0] False = Inr (Mat K)
          \<and> diag K = [1 + 100 / 2 ^ 52, 1 + 100 / 2 ^ 52])"
proof -
  have d: "lib_distance (spec_lib eps) (lib_scale (spec_lib eps) [[0], [1]] (exp ([0, 0] ! 1)))
        (lib_scale (spec_lib eps) [[0], [1]] (exp ([0, 0] ! 1))) = Inr [[0, 1], [1, 0]]" for eps
    by (simp add: spec_lib_def distance_def scale_def same_dim_def point_dist_def)
  have e: "lib_eps (spec_lib eps) = eps" for eps by (simp add: spec_lib_def)
  have k: "lib_maternp_kernel (spec_lib eps) 2 [[0, 1], [1, 0]]
           = [[1, maternp_kernel 2 1], [maternp_kernel 2 1, 1]]" for eps
    by (simp add: spec_lib_def maternp_kernel_0)
  show ?thesis
    using kernel_pairwise_diag [of "[0, 0]" "spec_lib (1 / 2 ^ 52)" "[[0], [1]]" "[[0, 1], [1, 0]]"]
      d [of "1 / 2 ^ 52"]
    by (auto simp: e k is_matrix_def)
qed

text \<open>
  C3, as stated, fails, whatever the library computes. Take the single point \<open>0\<close> and
  \<open>eps = 1 / 2 ^ 52\<close>; let \<open>d\<close> be the distance the library gives from the point to
  itself and \<open>m\<close> the correlation it gives at that distance. For \<open>param = [0, 0]\<close> the
  pairwise self-covariance is \<open>[1]\<close> and the diagonal of the full matrix is
  \<open>[m + 100 * eps]\<close>; for \<open>param = [log 2, 0]\<close> they are \<open>[2]\<close> and
  \<open>[2 * m + 100 * eps]\<close>. The two equalities together would give \<open>100 * eps = 0\<close>: for no
  library does the pairwise self-covariance equal the diagonal at both parameter vectors.
\<close>

theorem kernel_pairwise_diag_counterexample:
  "\<not> (\<exists>gp d m. lib_eps gp = 1 / 2 ^ 52
        \<and> lib_distance gp (lib_scale gp [[0]] 1) (lib_scale gp [[0]] 1) = Inr [[d]]
        \<and> lib_maternp_kernel gp 2 [[d]] = [[m]]
        \<and> (\<exists>v K. kernel_ii_or_tt_lib gp [[0]] [0, 0] True = Inr (Vec v)
               \<and> kernel_ii_or_tt_lib gp [[0]] [0, 0] False = Inr (Mat K) \<and> v = diag K)
        \<and> (\<exists>v K. kernel_ii_or_tt_lib gp [[0]] [ln 2, 0] True = Inr (Vec v)
               \<and> kernel_ii_or_tt_lib gp [[0]] [ln 2, 0] False = Inr (Mat K) \<and> v = diag K))"
proof
  assume "\<exists>gp d m. lib_eps gp = 1 / 2 ^ 52
        \<and> lib_distance gp (lib_scale gp [[0]] 1) (lib_scale gp [[0]] 1) = Inr [[d]]
        \<and> lib_maternp_kernel gp 2 [[d]] = [[m]]
        \<and> (\<exists>v K. kernel_ii_or_tt_lib gp [[0]] [0, 0] True = Inr (Vec v)
               \<and> kernel_ii_or_tt_lib gp [[0]] [0, 0] False = Inr (Mat K) \<and> v = diag K)
        \<and> (\<exists>v K. kernel_ii_or_tt_lib gp [[0]] [ln 2, 0] True = Inr (Vec v)
               \<and> kernel_ii_or_tt_lib gp [[0]] [ln 2, 0] False = Inr (Mat K) \<and> v = diag K)"
  then obtain gp d m where e: "lib_eps gp = 1 / 2 ^ 52"
    and D: "lib_distance gp (lib_scale gp [[0]] 1) (lib_scale gp [[0]] 1) = Inr [[d]]"
    and A: "lib_maternp_kernel gp 2 [[d]] = [[m]]"
    and c1: "\<exists>v K. kernel_ii_or_tt_lib gp [[0]] [0, 0] True = Inr (Vec v)
               \<and> kernel_ii_or_tt_lib gp [[0]] [0, 0] False = Inr (Mat K) \<and> v = diag K"
    and c2: "\<exists>v K. kernel_ii_or_tt_lib gp [[0]] [ln 2, 0] True = Inr (Vec v)
               \<and> kernel_ii_or_tt_lib gp [[0]] [ln 2, 0] False = Inr (Mat K) \<and> v = diag K"
    by blast
  have f1: "kernel_ii_or_tt_lib gp [[0]] [0, 0] False = Inr (Mat [[m + 100 / 2 ^ 52]])"
    by (simp add: kernel_ii_or_tt_lib_def getitem_def Let_def D A e mat_add_def smul_mat_def
        smul_vec_def eye_def)
  have p1: "kernel_ii_or_tt_lib gp [[0]] [0, 0] True = Inr (Vec [1])"
    by (simp add: kernel_ii_or_tt_lib_def getitem_def Let_def smul_vec_def ones_def)
  have f2: "kernel_ii_or_tt_lib gp [[0]] [ln 2, 0] False = Inr (Mat [[2 * m + 100 / 2 ^ 52]])"
    by (simp add: kernel_ii_or_tt_lib_def getitem_def Let_def D A e mat_add_def smul_mat_def
        smul_vec_def eye_def)
  have p2: "kernel_ii_or_tt_lib gp [[0]] [ln 2, 0] True = Inr (Vec [2])"
    by (simp add: kernel_ii_or_tt_lib_def getitem_def Let_def smul_vec_def ones_def)
  have "m + 100 / 2 ^ 52 = 1" using c1 unfolding f1 p1 by (simp add: diag_def)
  moreover have "2 * m + 100 / 2 ^ 52 = 2" using c2 unfolding f2 p2 by (simp add: diag_def)
  ultimately show False by simp
qed

subsection \<open>Symmetry\<close>

text \<open>
  C4. For every point set \<open>x\<close> and parameter vector, the self-covariance matrix
  \<open>kernel(x, x, param, pairwise=False)\<close> equals its transpose.
\<close>

theorem kernel_self_symmetric:
  assumes "2 \<le> length param" and "is_points d (st x)"
  shows "\<exists>K. kernel eps st x (Some x) param False = Inr (Mat K) \<and> transpose_mat K = K"
  by (simp add: kernel_def kernel_ii_index [OF assms] transpose_index point_dist_sym)

theorem kernel_self_symmetric_witness:
  "2 \<le> length [0, 0 :: real] \<and> is_points 1 [[0], [1]]
   \<and> (\<exists>K. kernel (1 / 2 ^ 52) (\<lambda>r. [[0], [1]]) 0 (Some 0) [0, 0] False = Inr (Mat K)
          \<and> transpose_mat K = K)"
  using kernel_self_symmetric [of "[0, 0]" 1 "\<lambda>r. [[0], [1]]" 0 "1 / 2 ^ 52"]
  by (simp add: is_points_def)

subsection \<open>The parameters of the example\<close>

text \<open>
  C5, as amended. With \<open>covparam\<close> the kernel uses the smoothness \<open>p = 2\<close>, the
  variance \<open>sigma2 = exp(covparam[0]) = 1/4\<close>, the inverse range
  \<open>invrho = exp(covparam[1]) = 10/7\<close>, and adds the nugget \<open>100 * eps\<close> to the diagonal of
  the self-covariance matrix: a constant that is not scaled by \<open>sigma2\<close>.
\<close>

theorem covparam_decoding:
  assumes "is_points d x"
  shows "exp (covparam ! 0) = 1 / 4 \<and> exp (covparam ! 1) = 10 / 7
       \<and> kernel_ii_or_tt eps x covparam False
         = Inr (Mat (map (\<lambda>i. map (\<lambda>j.
              1 / 4 * maternp_kernel 2
                (point_dist (map (\<lambda>a. 10 / 7 * a) (x ! i)) (map (\<lambda>a. 10 / 7 * a) (x ! j)))
              + 100 * eps * (if i = j then 1 else 0)) [0..<length x]) [0..<length x]))"
proof -
  have l: "2 \<le> length covparam" by (simp add: covparam_def)
  have e0: "exp (covparam ! 0) = 1 / 4" by (simp add: covparam_def power2_eq_square)
  have e1: "exp (covparam ! 1) = 10 / 7" by (simp add: covparam_def)
  show ?thesis
    unfolding kernel_ii_index [OF l assms] e0 e1 by (intro conjI refl)
qed

theorem covparam_decoding_witness:
  "is_points 1 [[0]]
   \<and> kernel_ii_or_tt (1 / 2 ^ 52) [[0]] covparam False = Inr (Mat [[1 / 4 + 100 / 2 ^ 52]])"
  using covparam_decoding [of 1 "[[0]]" "1 / 2 ^ 52"]
  by (simp add: is_points_def point_dist_self maternp_kernel_0)

text \<open>
  C5, as stated, fails in its last part: the nugget is \<open>100 * eps\<close>, not about
  \<open>sigma2 / 10 ^ 10\<close>. For the machine epsilon of double precision, \<open>1 / 2 ^ 52\<close>, it is
  more than a thousand times smaller; for that of single precision, \<open>1 / 2 ^ 23\<close>, more than a
  thousand times larger.
\<close>

theorem covparam_nugget_counterexample:
  "kernel_ii_or_tt (1 / 2 ^ 52) [[0]] covparam False = Inr (Mat [[1 / 4 + 100 / 2 ^ 52]])
   \<and> 1000 * (100 / 2 ^ 52) < (1 / 10 ^ 10 * (1 / 4) :: real)
   \<and> kernel_ii_or_tt (1 / 2 ^ 23) [[0]] covparam False = Inr (Mat [[1 / 4 + 100 / 2 ^ 23]])
   \<and> 1000 * (1 / 10 ^ 10 * (1 / 4)) < (100 / 2 ^ 23 :: real)"
proof -
  have l: "2 \<le> length covparam" by (simp add: covparam_def)
  have e0: "exp (covparam ! 0) = 1 / 4" by (simp add: covparam_def power2_eq_square)
  show ?thesis
    by (simp add: kernel_ii_one_point [OF l] e0)
qed

subsection \<open>Dispatch on identity\<close>

text \<open>
  C9. The dispatch is on the identity of the arrays. For a reference \<open>y\<close> other than
  \<open>x\<close> whose array equals that of \<open>x\<close>, \<open>kernel(x, y)\<close> is the cross-covariance matrix
  \<open>Kc\<close>, the same for every \<open>eps\<close>, so without nugget; \<open>kernel(x, x)\<close> is \<open>Kc\<close> plus
  \<open>100 * eps\<close> times the identity matrix. The two results differ as soon as \<open>eps\<close> is not
  zero and \<open>x\<close> has a point.
\<close>

theorem kernel_identity_dispatch:
  assumes "2 \<le> length param" and "is_points d (st x)" and "y \<noteq> x" and "st y = st x"
  shows "\<exists>Kc. \<forall>eps.
           kernel eps st x (Some y) param False = Inr (Mat Kc)
         \<and> kernel eps st x (Some x) param False
             = Inr (Mat (mat_add Kc (smul_mat (100 * eps) (eye (length (st x))))))
         \<and> (eps \<noteq> 0 \<and> st x \<noteq> [] \<longrightarrow>
              kernel eps st x (Some y) param False \<noteq> kernel eps st x (Some x) param False)"
proof -
  let ?n = "length (st x)"
  let ?f = "\<lambda>i j. exp (param ! 0) * maternp_kernel 2
                (point_dist (map (\<lambda>a. exp (param ! 1) * a) (st x ! i))
                            (map (\<lambda>a. exp (param ! 1) * a) (st x ! j)))"
  let ?Kc = "map (\<lambda>i. map (\<lambda>j. ?f i j) [0..<?n]) [0..<?n]"
  have c: "kernel eps st x (Some y) param False = Inr (Mat ?Kc)" for eps
    using assms(3,4)
    by (auto simp: kernel_def kernel_it_full [OF assms(1,2,2)] smul_mat_def smul_vec_def
        scale_def intro!: nth_equalityI)
  have s: "kernel eps st x (Some x) param False
           = Inr (Mat (mat_add ?Kc (smul_mat (100 * eps) (eye ?n))))" for eps
    by (auto simp: kernel_def kernel_ii_index [OF assms(1,2)] mat_add_def smul_mat_def
        smul_vec_def eye_def intro!: nth_equalityI)
  have d: "kernel eps st x (Some y) param False \<noteq> kernel eps st x (Some x) param False"
    if "eps \<noteq> 0" and "st x \<noteq> []" for eps
  proof
    define Ks where "Ks = map (\<lambda>i. map (\<lambda>j. ?f i j + 100 * eps * (if i = j then 1 else 0))
                                [0..<?n]) [0..<?n]"
    define Kc where "Kc = ?Kc"
    have n: "0 < ?n" using that(2) by simp
    assume "kernel eps st x (Some y) param False = kernel eps st x (Some x) param False"
    then have "Inr (Mat Kc) = (Inr (Mat Ks) :: error + ndarray)"
      unfolding c Kc_def Ks_def by (simp only: kernel_def kernel_ii_index [OF assms(1,2)] simp_thms if_True)
    then have "Kc = Ks" by simp
    then have "Kc ! 0 ! 0 = Ks ! 0 ! 0" by simp
    moreover have "Kc ! 0 ! 0 = ?f 0 0" using n by (simp add: Kc_def)
    moreover have "Ks ! 0 ! 0 = ?f 0 0 + 100 * eps" using n by (simp add: Ks_def)
    ultimately show False using that(1) by simp
  qed
  show ?thesis
    using c s d by blast
qed

theorem kernel_identity_dispatch_witness:
  "2 \<le> length [0, 0 :: real] \<and> is_points 1 [[0]] \<and> (1 :: ref) \<noteq> 0
   \<and> (\<exists>Kc. kernel (1 / 2 ^ 52) (\<lambda>r. [[0]]) 0 (Some 1) [0, 0] False = Inr (Mat Kc)
         \<and> kernel (1 / 2 ^ 52) (\<lambda>r. [[0]]) 0 (Some 0) [0, 0] False
             = Inr (Mat (mat_add Kc (smul_mat (100 * (1 / 2 ^ 52)) (eye 1)))))"
  using kernel_identity_dispatch [of "[0, 0]" 1 "\<lambda>r. [[0]]" 0 1]
  by (auto simp: is_points_def)

subsection \<open>Clamping of the variance\<close>

text \<open>
  C6. After \<open>zpv = np.maximum(zpv, 0)\<close> every element of the variance array is at least
  0: the array keeps its length, a negative element becomes 0 and any other element is
  unchanged. The step returns an array for every input; it raises nothing.
\<close>

theorem variance_clamp_nonneg:
  "list_all (\<lambda>v. 0 \<le> v) (np_maximum zpv 0) \<and> length (np_maximum zpv 0) = length zpv
   \<and> (\<forall>i<length zpv. np_maximum zpv 0 ! i = (if zpv ! i < 0 then 0 else zpv ! i))"
  by (auto simp: np_maximum_def list_all_iff)

theorem variance_clamp_nonneg_witness:
  "np_maximum [- (1 / 10 ^ 14), 0, 3] 0 = [0, 0, 3]
   \<and> list_all (\<lambda>v. 0 \<le> v) (np_maximum [- (1 / 10 ^ 14), 0, 3] 0)"
  using variance_clamp_nonneg [of "[- (1 / 10 ^ 14), 0, 3]"]
  by (simp add: np_maximum_def)

subsection \<open>The predictor\<close>

text \<open>
  C7. When \<open>len(xi) \<noteq> len(zi)\<close>, or the points of \<open>xi\<close> and \<open>xt\<close> do not have one
  dimension, \<open>predict\<close> fails with \<open>DimensionMismatch\<close>, whatever the kernel, the mean
  function and the linear solver are: none of them is consulted.
\<close>

theorem predict_dimension_mismatch:
  assumes "length (st xi) \<noteq> length zi \<or> \<not> same_dim (st xi) (st xt)"
  shows "predict solve md st xi zi xt = Inl DimensionMismatch"
  using assms by (simp add: predict_def)

theorem predict_dimension_mismatch_witness:
  "length [[0], [1 :: real]] \<noteq> length [1 :: real]
   \<and> predict (\<lambda>M b. None) (example_model (1 / 2 ^ 52)) (\<lambda>r. [[0], [1]]) 0 [1] 0
       = Inl DimensionMismatch
   \<and> \<not> same_dim [[0]] [[0, 0]]
   \<and> predict (\<lambda>M b. None) (example_model (1 / 2 ^ 52)) (\<lambda>r. if r = 0 then [[0]] else [[0, 0]]) 0 [1] 1
       = Inl DimensionMismatch"
  using predict_dimension_mismatch [of "\<lambda>r. [[0], [1]]" 0 "[1]" 0 "\<lambda>M b. None" "example_model (1 / 2 ^ 52)"]
    predict_dimension_mismatch [of "\<lambda>r. if r = 0 then [[0]] else [[0, 0]]" 0 "[1]" 1 "\<lambda>M b. None" "example_model (1 / 2 ^ 52)"]
  by (simp add: same_dim_def)

text \<open>Facts on the linear algebra of the predictor.\<close>

lemma those_Some:
  "those xs = Some V \<Longrightarrow> length V = length xs \<and> (\<forall>j<length xs. xs ! j = Some (V ! j))"
proof (induction xs arbitrary: V)
  case Nil
  then show ?case by simp
next
  case (Cons a xs)
  then show ?case
    by (auto split: option.splits simp: nth_Cons split: nat.splits)
qed

lemma dot_append:
  "dot (a @ b) w = dot a (take (length a) w) + dot b (drop (length a) w)"
  by (simp add: dot_def zip_append1)

lemma block_row:
  "j < length K \<Longrightarrow> length P = length K \<Longrightarrow> block K P ! j = K ! j @ P ! j"
  by (simp add: block_def Let_def nth_append)

lemma length_block:
  "length P = length K \<Longrightarrow>
   length (block K P) = length K + (case P of [] \<Rightarrow> 0 | r # _ \<Rightarrow> length r)"
  by (simp add: block_def Let_def)

lemma column_symmetric:
  assumes "length K = n" and "\<forall>i<n. length (K ! i) = n"
    and "\<forall>i<n. \<forall>j<n. K ! i ! j = K ! j ! i" and "j < n"
  shows "column K j = K ! j"
  using assms by (auto simp: column_def intro!: nth_equalityI)

lemma mat_vec_nth: "j < length M \<Longrightarrow> mat_vec M w ! j = dot (M ! j) w"
  by (simp add: mat_vec_def)

subsection \<open>Prediction at the training points\<close>

text \<open>
  The covariance of the training points under the parameters of the example, and the
  predictor unfolded for the model of the example when the target array is the training
  array.
\<close>

lemma those_exists: "(\<And>x. x \<in> set xs \<Longrightarrow> x \<noteq> None) \<Longrightarrow> \<exists>V. those xs = Some V"
  by (induction xs) fastforce+

lemma kernel_training:
  assumes pts: "is_points d (st xi)"
    and K: "kernel eps st xi (Some xi) covparam False = Inr (Mat K)"
  shows "length K = length (st xi)"
    and "\<forall>i<length (st xi). length (K ! i) = length (st xi)"
    and "\<forall>i<length (st xi). \<forall>j<length (st xi). K ! i ! j = K ! j ! i"
    and "\<forall>j<length (st xi). K ! j ! j = 1 / 4 + 100 * eps"
    and "kernel eps st xi (Some xi) covparam True
         = Inr (Vec (replicate (length (st xi)) (1 / 4)))"
proof -
  have l: "2 \<le> length covparam" by (simp add: covparam_def)
  have e0: "exp (covparam ! 0) = 1 / 4" by (simp add: covparam_def power2_eq_square)
  obtain K' where K': "kernel_ii_or_tt eps (st xi) covparam False = Inr (Mat K')"
    and p: "length K' = length (st xi)"
      "\<forall>i<length (st xi). length (K' ! i) = length (st xi)"
      "\<forall>i<length (st xi). \<forall>j<length (st xi). K' ! i ! j = K' ! j ! i"
      "\<forall>j<length (st xi). K' ! j ! j = 1 / 4 + 100 * eps"
    using kernel_ii_props [OF l pts, of eps] unfolding e0 by blast
  have "K' = K" using K K' by (simp add: kernel_def)
  with p show "length K = length (st xi)"
    and "\<forall>i<length (st xi). length (K ! i) = length (st xi)"
    and "\<forall>i<length (st xi). \<forall>j<length (st xi). K ! i ! j = K ! j ! i"
    and "\<forall>j<length (st xi). K ! j ! j = 1 / 4 + 100 * eps"
    by simp_all
  show "kernel eps st xi (Some xi) covparam True
         = Inr (Vec (replicate (length (st xi)) (1 / 4)))"
    by (simp add: kernel_def kernel_ii_pairwise [OF l] e0)
qed

lemma predict_training_unfold:
  assumes pts: "is_points d (st xi)" and len: "length zi = length (st xi)"
    and K: "kernel eps st xi (Some xi) covparam False = Inr (Mat K)"
    and n: "n = length zi" and P: "P = replicate n [1]" and M: "M = block K P"
  shows "predict solve (example_model eps) st xi zi xi =
     (case solve M (zi @ replicate (length M - n) 0) of None \<Rightarrow> Inl SingularSystem | Some w \<Rightarrow>
     (case those (map (\<lambda>j. solve M (column K j @ P ! j)) [0..<n]) of
        None \<Rightarrow> Inl SingularSystem
      | Some V \<Rightarrow>
          Inr (map (\<lambda>j. dot (column K j) (take n w) + dot (P ! j) (drop n w)) [0..<n],
               map (\<lambda>j. replicate n (1 / 4) ! j - dot (column K j @ P ! j) (V ! j)) [0..<n])))"
proof -
  have sd: "same_dim (st xi) (st xi)" using same_dim_points [OF pts pts] .
  have n': "length (st xi) = n" using len n by simp
  show ?thesis
    using len sd
    by (simp add: predict_def example_model_def K kernel_training(5) [OF pts K]
        constant_mean_def ones2_def Let_def n' P [symmetric] M [symmetric])
qed

text \<open>With a complete solver and a non-singular kriging matrix the predictor returns.\<close>

lemma predict_training_returns:
  assumes complete: "solver_complete solve"
    and pts: "is_points d (st xi)" and len: "length zi = length (st xi)"
    and K: "kernel eps st xi (Some xi) covparam False = Inr (Mat K)"
    and ns: "nonsingular (block K (replicate (length zi) [1]))"
  shows "\<exists>zpm zpv. predict solve (example_model eps) st xi zi xi = Inr (zpm, zpv)"
proof -
  define n where "n = length zi"
  define P where "P = replicate n [1 :: real]"
  define M where "M = block K P"
  have Klen: "length K = n"
    using kernel_training(1) [OF pts K] len by (simp add: n_def)
  have Plen: "length P = n" by (simp add: P_def)
  have Mlen: "length M = n + (case P of [] \<Rightarrow> 0 | r # _ \<Rightarrow> length r)"
    by (simp add: M_def length_block Plen Klen)
  have M1: "length M = n + 1" if pos: "0 < n"
  proof -
    obtain k where "n = Suc k" using pos by (cases n) auto
    then show ?thesis unfolding Mlen by (simp add: P_def)
  qed
  have ns': "nonsingular M" using ns by (simp add: M_def P_def n_def)
  have "length (zi @ replicate (length M - n) 0) = length M"
    using Mlen by (simp add: n_def)
  then obtain w where w: "solve M (zi @ replicate (length M - n) 0) = Some w"
    using complete ns' unfolding solver_complete_def by blast
  have "x \<noteq> None" if xin: "x \<in> set (map (\<lambda>j. solve M (column K j @ P ! j)) [0..<n])" for x
  proof -
    obtain j where j: "j < n" and x: "x = solve M (column K j @ P ! j)"
      using xin by auto
    have "length (column K j @ P ! j) = length M"
      using j M1 Klen by (simp add: column_def P_def)
    then show ?thesis
      using complete ns' unfolding solver_complete_def x by blast
  qed
  then obtain V where V: "those (map (\<lambda>j. solve M (column K j @ P ! j)) [0..<n]) = Some V"
    using those_exists by blast
  show ?thesis
    unfolding predict_training_unfold [OF pts len K n_def P_def M_def] w V by simp
qed

text \<open>
  What the predictor returns with a sound solver: the training values, and minus the
  nugget.
\<close>

lemma predict_training_values:
  assumes sound: "solver_sound solve"
    and pts: "is_points d (st xi)" and len: "length zi = length (st xi)"
    and K: "kernel eps st xi (Some xi) covparam False = Inr (Mat K)"
    and res: "predict solve (example_model eps) st xi zi xi = Inr (zpm, zpv)"
  shows "zpm = zi \<and> zpv = replicate (length zi) (- (100 * eps))"
proof -
  define n where "n = length zi"
  define P where "P = replicate n [1 :: real]"
  define M where "M = block K P"
  have Klen: "length K = n" and Krow: "\<forall>i<n. length (K ! i) = n"
    and Ksym: "\<forall>i<n. \<forall>j<n. K ! i ! j = K ! j ! i"
    and Kdiag: "\<forall>j<n. K ! j ! j = 1 / 4 + 100 * eps"
    using kernel_training(1-4) [OF pts K] len by (simp_all add: n_def)
  have Plen: "length P = n" by (simp add: P_def)
  have Mlen: "n \<le> length M" by (simp add: M_def length_block Plen Klen)
  obtain w V where w: "solve M (zi @ replicate (length M - n) 0) = Some w"
    and V: "those (map (\<lambda>j. solve M (column K j @ P ! j)) [0..<n]) = Some V"
    and zpm: "zpm = map (\<lambda>j. dot (column K j) (take n w) + dot (P ! j) (drop n w)) [0..<n]"
    and zpv: "zpv = map (\<lambda>j. replicate n (1 / 4) ! j - dot (column K j @ P ! j) (V ! j)) [0..<n]"
    using res unfolding predict_training_unfold [OF pts len K n_def P_def M_def]
    by (auto split: option.splits)
  have row: "M ! j = K ! j @ P ! j" if "j < n" for j
    using that by (simp add: M_def block_row Klen Plen)
  have col: "column K j = K ! j" if "j < n" for j
    using column_symmetric [OF Klen Krow Ksym that] .
  have wsol: "mat_vec M w = zi @ replicate (length M - n) 0"
    using sound w by (simp add: solver_sound_def)
  have m1: "zpm ! j = zi ! j" if "j < n" for j
  proof -
    have "dot (M ! j) w = zi ! j"
      using wsol that Mlen n_def by (metis mat_vec_nth nth_append less_le_trans)
    moreover have "dot (M ! j) w = dot (K ! j) (take n w) + dot (P ! j) (drop n w)"
      using that Krow by (simp add: row dot_append)
    ultimately show ?thesis using that by (simp add: zpm col)
  qed
  have m2: "zpv ! j = - (100 * eps)" if "j < n" for j
  proof -
    have "solve M (column K j @ P ! j) = Some (V ! j)"
      using those_Some [OF V] that by simp
    then have "mat_vec M (V ! j) = column K j @ P ! j"
      using sound by (simp add: solver_sound_def)
    then have "dot (M ! j) (V ! j) = (column K j @ P ! j) ! j"
      using that Mlen by (metis mat_vec_nth less_le_trans)
    then have "dot (column K j @ P ! j) (V ! j) = 1 / 4 + 100 * eps"
      using that Krow Kdiag by (simp add: row col nth_append)
    then show ?thesis using that by (simp add: zpv)
  qed
  have "zpm = zi"
    using m1 by (auto simp: zpm n_def intro!: nth_equalityI)
  moreover have "zpv = replicate (length zi) (- (100 * eps))"
    using m2 by (auto simp: zpv n_def intro!: nth_equalityI)
  ultimately show ?thesis by simp
qed

text \<open>
  Two training points. The covariance matrix is \<open>[[1/4 + 100 eps, c], [c, 1/4 + 100 eps]]\<close>
  with \<open>c \<le> 1/4\<close>, so for \<open>eps > 0\<close> the kriging matrix
  \<open>[[1/4 + 100 eps, c, 1], [c, 1/4 + 100 eps, 1], [1, 1, 0]]\<close> is non-singular.
\<close>

lemma two_point_kernel:
  assumes pts: "is_points d [a, b]" and st: "st xi = [a, b]"
  shows "\<exists>c. c \<le> 1 / 4 \<and> kernel eps st xi (Some xi) covparam False
           = Inr (Mat [[1 / 4 + 100 * eps, c], [c, 1 / 4 + 100 * eps]])"
proof -
  have l: "2 \<le> length covparam" by (simp add: covparam_def)
  have e0: "exp (covparam ! 0) = 1 / 4" by (simp add: covparam_def power2_eq_square)
  define c where "c = 1 / 4 * maternp_kernel 2
      (point_dist (map (\<lambda>u. exp (covparam ! 1) * u) a) (map (\<lambda>u. exp (covparam ! 1) * u) b))"
  have u: "[0..<2] = [0, 1]" by (simp add: numeral_2_eq_2)
  have "c \<le> 1 / 4"
    using maternp_kernel_le_1 [OF point_dist_nonneg] by (simp add: c_def)
  moreover have "kernel eps st xi (Some xi) covparam False
           = Inr (Mat [[1 / 4 + 100 * eps, c], [c, 1 / 4 + 100 * eps]])"
    using pts
    by (simp add: kernel_def st kernel_ii_index [OF l, of d] e0 u point_dist_self
        maternp_kernel_0 c_def
        point_dist_sym [of "map (\<lambda>u. exp (covparam ! Suc 0) * u) b"])
  ultimately show ?thesis by blast
qed

lemma nonsingular_3:
  fixes a c :: real
  assumes g: "a - c \<noteq> 0"
  shows "nonsingular [[a, c, 1], [c, a, 1], [1, 1, 0]]"
  unfolding nonsingular_def
proof (intro allI impI)
  fix b :: vector
  assume "length b = length [[a, c, 1], [c, a, 1], [1, 1, 0 :: real]]"
  then obtain b1 b2 b3 where b: "b = [b1, b2, b3]"
    by (cases b; cases "tl b"; cases "tl (tl b)") auto
  define t where "t = (b1 - b2) / (a - c)"
  define w1 where "w1 = (b3 + t) / 2"
  define w2 where "w2 = (b3 - t) / 2"
  define w3 where "w3 = b1 - a * w1 - c * w2"
  have gt: "(a - c) * t = b1 - b2" using g by (simp add: t_def)
  have d: "w1 - w2 = t" and s: "w1 + w2 = b3"
    by (simp_all add: w1_def w2_def field_simps)
  have r1: "a * w1 + c * w2 + w3 = b1" by (simp add: w3_def)
  have "c * w1 + a * w2 + w3 = b1 - (a - c) * (w1 - w2)"
    by (simp add: w3_def algebra_simps)
  then have r2: "c * w1 + a * w2 + w3 = b2"
    unfolding d gt by simp
  have "mat_vec [[a, c, 1], [c, a, 1], [1, 1, 0]] [w1, w2, w3] = b"
    unfolding b using r1 r2 s by (simp add: mat_vec_def dot_def)
  then show "has_solution [[a, c, 1], [c, a, 1], [1, 1, 0]] b"
    unfolding has_solution_def b by (intro exI [of _ "[w1, w2, w3]"]) simp
qed

lemma two_point_nonsingular:
  assumes eps: "0 < eps" and pts: "is_points d [a, b]" and st: "st xi = [a, b]"
    and K: "kernel eps st xi (Some xi) covparam False = Inr (Mat K)"
  shows "nonsingular (block K [[1], [1]])"
proof -
  obtain c where c: "c \<le> 1 / 4" and K': "K = [[1 / 4 + 100 * eps, c], [c, 1 / 4 + 100 * eps]]"
    using two_point_kernel [of d a b st xi eps] pts st K by auto
  have "block K [[1], [1]]
        = [[1 / 4 + 100 * eps, c, 1], [c, 1 / 4 + 100 * eps, 1], [1, 1, 0]]"
    by (simp add: K' block_def column_def)
  moreover have "1 / 4 + 100 * eps - c \<noteq> 0" using eps c by simp
  ultimately show ?thesis by (simp add: nonsingular_3)
qed

text \<open>
  So for every training set of two points, every pair of observations and \<open>eps > 0\<close>,
  the predictor returns the observations as the predictive mean.
\<close>

lemma predict_two_points:
  assumes sound: "solver_sound solve" and complete: "solver_complete solve"
    and eps: "0 < eps" and pts: "is_points d [a, b]" and st: "st xi = [a, b]"
  shows "predict solve (example_model eps) st xi [z1, z2] xi
         = Inr ([z1, z2], [- (100 * eps), - (100 * eps)])"
proof -
  have pts': "is_points d (st xi)" using pts st by simp
  have len: "length [z1, z2] = length (st xi)" by (simp add: st)
  obtain K where K: "kernel eps st xi (Some xi) covparam False = Inr (Mat K)"
    using two_point_kernel [of d a b st xi eps] pts st by auto
  have "nonsingular (block K [[1], [1]])"
    using two_point_nonsingular [OF eps pts st K] .
  then have ns: "nonsingular (block K (replicate (length [z1, z2]) [1]))"
    by (simp add: numeral_2_eq_2)
  obtain zpm zpv where res: "predict solve (example_model eps) st xi [z1, z2] xi = Inr (zpm, zpv)"
    using predict_training_returns [OF complete pts' len K ns] by blast
  show ?thesis
    using predict_training_values [OF sound pts' len K res] res by (simp add: numeral_2_eq_2)
qed

text \<open>
  A sound and complete solver exists: the one that returns a solution whenever there is
  one.
\<close>

lemma exact_solver:
  "\<exists>solve. solver_sound solve \<and> solver_complete solve"
proof -
  define S :: solver where
    "S = (\<lambda>M b. if has_solution M b
                then Some (SOME w. length w = length b \<and> mat_vec M w = b) else None)"
  have "solver_sound S"
    unfolding solver_sound_def S_def has_solution_def
    by (auto split: if_splits intro: someI2_ex)
  moreover have "solver_complete S"
    unfolding solver_complete_def S_def nonsingular_def by simp
  ultimately show ?thesis by blast
qed

text \<open>
  C1. Let the solver be sound and complete, \<open>K = kernel(xi, xi)\<close> the covariance matrix
  of the training points, \<open>P = constant_mean(xi)\<close> and the kriging matrix
  \<open>[[K, P], [P\<^sup>T, 0]]\<close> non-singular. Then \<open>predict(xi, zi, xi)\<close> returns; the predictive
  mean it returns is \<open>zi\<close>, and the predictive variance is, at every training point, the
  prior variance minus the diagonal entry of \<open>K\<close>, which is minus the nugget,
  \<open>- 100 * eps\<close>: zero up to the nugget, and zero after the clamping step. The target set
  is the very array \<open>xi\<close>, so \<open>kernel(xi, xt)\<close> takes the self-covariance branch. The
  kriging matrix of every training set of two points is non-singular when \<open>eps > 0\<close>
  (lemmas \<open>two_point_nonsingular\<close>, \<open>predict_two_points\<close>), and a sound and complete
  solver exists (lemma \<open>exact_solver\<close>).
\<close>

theorem predict_interpolates:
  assumes sound: "solver_sound solve" and complete: "solver_complete solve"
    and pts: "is_points d (st xi)" and len: "length zi = length (st xi)"
    and K: "kernel eps st xi (Some xi) covparam False = Inr (Mat K)"
    and P: "constant_mean (st xi) None = Some P"
    and ns: "nonsingular (block K P)"
  shows "predict solve (example_model eps) st xi zi xi
           = Inr (zi, replicate (length zi) (- (100 * eps)))
       \<and> (0 \<le> eps \<longrightarrow>
            np_maximum (replicate (length zi) (- (100 * eps))) 0 = replicate (length zi) 0)
       \<and> (\<exists>ktt. kernel eps st xi (Some xi) covparam True = Inr (Vec ktt)
            \<and> replicate (length zi) (- (100 * eps)) = map2 (\<lambda>a b. a - b) ktt (diag K))"
proof -
  have "P = replicate (length zi) [1]"
    using P len by (simp add: constant_mean_def ones2_def)
  then have ns': "nonsingular (block K (replicate (length zi) [1]))"
    using ns by simp
  obtain zpm zpv where res: "predict solve (example_model eps) st xi zi xi = Inr (zpm, zpv)"
    using predict_training_returns [OF complete pts len K ns'] by blast
  have a: "predict solve (example_model eps) st xi zi xi
           = Inr (zi, replicate (length zi) (- (100 * eps)))"
    using predict_training_values [OF sound pts len K res] res by simp
  have b: "np_maximum (replicate (length zi) (- (100 * eps))) 0 = replicate (length zi) 0"
    if "0 \<le> eps"
    using that by (simp add: np_maximum_def)
  have "replicate (length zi) (- (100 * eps))
        = map2 (\<lambda>a b. a - b) (replicate (length (st xi)) (1 / 4)) (diag K)"
    using kernel_training(1,4) [OF pts K] len
    by (auto simp: diag_def intro!: nth_equalityI)
  then have c: "\<exists>ktt. kernel eps st xi (Some xi) covparam True = Inr (Vec ktt)
            \<and> replicate (length zi) (- (100 * eps)) = map2 (\<lambda>a b. a - b) ktt (diag K)"
    using kernel_training(5) [OF pts K] by blast
  show ?thesis using a b c by blast
qed

text \<open>
  The theorem at the training set \<open>xi = [[0], [1]]\<close>, \<open>zi = [1, 2]\<close> with
  \<open>eps = 1 / 2 ^ 52\<close>.
\<close>

theorem predict_interpolates_witness:
  "\<exists>solve K. solver_sound solve \<and> solver_complete solve \<and> is_points 1 [[0], [1]]
     \<and> length [1, 2 :: real] = length [[0], [1 :: real]]
     \<and> kernel (1 / 2 ^ 52) (\<lambda>r. [[0], [1]]) 0 (Some 0) covparam False = Inr (Mat K)
     \<and> constant_mean [[0], [1]] (None :: unit option) = Some [[1], [1]]
     \<and> nonsingular (block K [[1], [1]])
     \<and> predict solve (example_model (1 / 2 ^ 52)) (\<lambda>r. [[0], [1]]) 0 [1, 2] 0
         = Inr ([1, 2], [- (100 / 2 ^ 52), - (100 / 2 ^ 52)])
     \<and> np_maximum [- (100 / 2 ^ 52), - (100 / 2 ^ 52)] 0 = [0, 0]"
proof -
  obtain S where S: "solver_sound S" "solver_complete S"
    using exact_solver by blast
  have pts: "is_points 1 [[0], [1 :: real]]" by (simp add: is_points_def)
  obtain K where K: "kernel (1 / 2 ^ 52) (\<lambda>r. [[0], [1]]) 0 (Some 0) covparam False = Inr (Mat K)"
    using two_point_kernel [of 1 "[0]" "[1]" "\<lambda>r. [[0], [1]]" 0 "1 / 2 ^ 52"] pts by auto
  have P: "constant_mean [[0], [1]] (None :: unit option) = Some [[1], [1]]"
    by (simp add: constant_mean_def ones2_def numeral_2_eq_2)
  have ns: "nonsingular (block K [[1], [1]])"
    using two_point_nonsingular [of "1 / 2 ^ 52" 1 "[0]" "[1]" "\<lambda>r. [[0], [1]]" 0 K] pts K
    by simp
  show ?thesis
    using predict_interpolates [of S 1 "\<lambda>r. [[0], [1]]" 0 "[1, 2]" "1 / 2 ^ 52" K "[[1], [1]]",
        OF S pts _ K P ns]
      S pts K P ns
    by (intro exI [of _ S] exI [of _ K]) (simp add: numeral_2_eq_2)
qed

subsection \<open>Mean functions\<close>








end
